theory Spec2Isabelle
  imports Complex_Main "HOL-Library.Word"
begin

section \<open>The UDP socket of espp (components/socket/include/udp_socket.hpp)\<close>

text \<open>
  The class \<^verbatim>\<open>UdpSocket\<close> is embedded call by call. Everything a member function
  does to the outside (a call of an OS socket primitive, of a \<^verbatim>\<open>Socket::\<close> helper, of the
  logger, of the worker task or of a caller-supplied callback) is appended to a list of
  events carried by the world; what the outside answers is read from a record of answers
  that is given to the call. Every member function calls each primitive at most once, so
  one answer per primitive describes the OS during one call; a sequence of calls takes one
  record per call.

  On the target (ESP32) \<^verbatim>\<open>int\<close>, \<^verbatim>\<open>size_t\<close> and \<^verbatim>\<open>ssize_t\<close> are all 32 bits wide and a
  UDP/IPv4 datagram holds fewer than 65536 bytes, so that the byte counts of the source
  are modelled by \<open>int\<close> and \<open>nat\<close> without wrap-around. The one narrowing conversion of
  the source, \<^verbatim>\<open>htons(receive_config.port)\<close>, is written out (\<open>htons\<close> below).
\<close>

subsection \<open>Data\<close>

type_synonym byte = "8 word"

text \<open>
  Modelled from the spec: \<^verbatim>\<open>Socket::Info\<close> is declared in socket_common.hpp, which is not
  among the sources. The spec describes it as an address and a port plus a cached OS-level
  representation, where \<^verbatim>\<open>update()\<close> refreshes address and port from that representation
  after a receive. The OS-level representation (a \<^verbatim>\<open>sockaddr_storage\<close>) is kept abstract
  as the address and port it denotes.
\<close>

type_synonym sockaddr = "string \<times> nat"

record Info =
  address :: string
  port :: nat
  raw :: sockaddr

definition init_ipv4 :: "string \<Rightarrow> nat \<Rightarrow> Info" where
  "init_ipv4 addr prt = \<lparr>address = addr, port = prt, raw = (addr, prt)\<rparr>"

definition ipv4_ptr :: "Info \<Rightarrow> sockaddr" where
  "ipv4_ptr i = raw i"

definition update_Info :: "Info \<Rightarrow> Info" where
  "update_Info i = i\<lparr>address := fst (raw i), port := snd (raw i)\<rparr>"

text \<open>
  \<^verbatim>\<open>Socket::Info sender_info;\<close> (default construction). The source reads it only after
  \<open>update_Info\<close> has overwritten address and port.
\<close>

definition default_Info :: Info where
  "default_Info = \<lparr>address = [], port = 0, raw = ([], 0)\<rparr>"

text \<open>
  \<^verbatim>\<open>struct sockaddr_in server_addr\<close> as \<^verbatim>\<open>start_receiving\<close> fills it in. The port field
  is 16 bits wide; the byte order of its storage is not modelled, so that \<open>htons\<close> is the
  conversion of its argument to \<^verbatim>\<open>uint16_t\<close> and \<open>htonl\<close> the conversion to \<^verbatim>\<open>uint32_t\<close>.
\<close>

record sockaddr_in =
  sin_family :: int
  sin_port :: "16 word"
  sin_addr :: "32 word"

definition htons :: "nat \<Rightarrow> 16 word" where
  "htons p = word_of_nat p"

definition htonl :: "nat \<Rightarrow> 32 word" where
  "htonl a = word_of_nat a"

text \<open>Constants of the sockets API (lwIP and POSIX agree on these values).\<close>

definition AF_INET :: int where "AF_INET = 2"
definition SOCK_DGRAM :: int where "SOCK_DGRAM = 2"
definition IPPROTO_IP :: int where "IPPROTO_IP = 0"
definition INADDR_ANY :: nat where "INADDR_ANY = 0"
definition SHUT_RD :: int where "SHUT_RD = 0"
definition SHUT_WR :: int where "SHUT_WR = 1"
definition SHUT_RDWR :: int where "SHUT_RDWR = 2"

definition m_address_family :: int where "m_address_family = AF_INET"
definition m_ip_protocol :: int where "m_ip_protocol = IPPROTO_IP"

subsection \<open>Events and the world\<close>

datatype log_level = LogError | LogWarn | LogInfo | LogDebug

text \<open>
  A log event keeps the level and the format string of the source, without the suffix
  \<^verbatim>\<open>: {} - '{}'\<close> by which some messages append \<^verbatim>\<open>errno\<close> and its text; the
  formatted arguments are not modelled. Durations are in seconds for the receive timeout (a
  \<^verbatim>\<open>std::chrono::duration<float>\<close>, passed through unchanged and never computed with)
  and in milliseconds for the wait of the worker.
\<close>

datatype event =
    Logged log_level string
  | Call_socket int int int
  | Call_enable_reuse int
  | Call_make_multicast int
  | Call_set_receive_timeout int real
  | Call_add_multicast_group int string
  | Call_sendto int "byte list" sockaddr
  | Call_recvfrom int nat
  | Call_bind int sockaddr_in
  | Call_shutdown int int
  | Call_close int
  | Call_wait_for nat
  | Call_task_start
  | Call_on_response "byte list"
  | Call_on_receive "byte list" Info

record 'u world =
  events :: "event list"
  user :: 'u

definition emit :: "event \<Rightarrow> 'u world \<Rightarrow> 'u world" where
  "emit e w = w\<lparr>events := events w @ [e]\<rparr>"

definition logger :: "log_level \<Rightarrow> string \<Rightarrow> 'u world \<Rightarrow> 'u world" where
  "logger lvl msg w = emit (Logged lvl msg) w"

fun is_log :: "event \<Rightarrow> bool" where
  "is_log (Logged _ _) = True"
| "is_log _ = False"

text \<open>The calls a world has seen, the log lines left out.\<close>

definition calls :: "'u world \<Rightarrow> event list" where
  "calls w = filter (\<lambda>e. \<not> is_log e) (events w)"

text \<open>The log lines of a level.\<close>

definition logged :: "log_level \<Rightarrow> 'u world \<Rightarrow> string list" where
  "logged lvl w = concat (map (\<lambda>e. case e of Logged l m \<Rightarrow> (if l = lvl then [m] else []) | _ \<Rightarrow> []) (events w))"

subsection \<open>The answers of the OS\<close>

datatype recv_outcome = RecvFail | Datagram "byte list" sockaddr

record os_answers =
  socket_ret :: int
  enable_reuse_ok :: bool
  make_multicast_ok :: bool
  set_receive_timeout_ok :: bool
  add_multicast_group_ok :: bool
  bind_ret :: int
  sendto_ret :: int
  recvfrom_ans :: recv_outcome

definition os_socket :: "os_answers \<Rightarrow> int \<Rightarrow> int \<Rightarrow> int \<Rightarrow> 'u world \<Rightarrow> int \<times> 'u world" where
  "os_socket os af ty proto w = (socket_ret os, emit (Call_socket af ty proto) w)"

definition os_bind :: "os_answers \<Rightarrow> int \<Rightarrow> sockaddr_in \<Rightarrow> 'u world \<Rightarrow> int \<times> 'u world" where
  "os_bind os fd addr w = (bind_ret os, emit (Call_bind fd addr) w)"

definition os_sendto :: "os_answers \<Rightarrow> int \<Rightarrow> byte list \<Rightarrow> sockaddr \<Rightarrow> 'u world \<Rightarrow> int \<times> 'u world" where
  "os_sendto os fd buf dest w = (sendto_ret os, emit (Call_sendto fd buf dest) w)"

text \<open>
  \<^verbatim>\<open>recvfrom(fd, buffer, len, 0, addr, &addrlen)\<close> on a datagram socket: a failure returns
  -1 and writes nothing; a datagram is copied into the buffer up to \<open>len\<close> bytes (the rest
  of it is dropped), the count of copied bytes is returned and the sender is written to
  \<open>addr\<close>. The buffer comes in zero-initialised (\<^verbatim>\<open>new uint8_t[max_num_bytes]()\<close>).
\<close>

definition os_recvfrom ::
  "os_answers \<Rightarrow> int \<Rightarrow> nat \<Rightarrow> sockaddr \<Rightarrow> 'u world \<Rightarrow> int \<times> byte list \<times> sockaddr \<times> 'u world" where
  "os_recvfrom os fd len addr w =
     (case recvfrom_ans os of
        RecvFail \<Rightarrow> (- 1, replicate len 0, addr, emit (Call_recvfrom fd len) w)
      | Datagram payload sender \<Rightarrow>
          (int (min (length payload) len),
           take len payload @ replicate (len - length payload) 0,
           sender,
           emit (Call_recvfrom fd len) w))"

definition os_shutdown :: "int \<Rightarrow> int \<Rightarrow> 'u world \<Rightarrow> 'u world" where
  "os_shutdown fd how w = emit (Call_shutdown fd how) w"

definition os_close :: "int \<Rightarrow> 'u world \<Rightarrow> 'u world" where
  "os_close fd w = emit (Call_close fd) w"

text \<open>
  Modelled from the spec: the helpers \<^verbatim>\<open>Socket::is_valid\<close>, \<^verbatim>\<open>Socket::enable_reuse\<close>,
  \<^verbatim>\<open>Socket::make_multicast\<close>, \<^verbatim>\<open>Socket::set_receive_timeout\<close> and
  \<^verbatim>\<open>Socket::add_multicast_group\<close> are declared in socket_common.hpp, which is not among
  the sources. A descriptor is valid when it is not negative (the OS hands out
  non-negative descriptors and \<^verbatim>\<open>cleanup\<close> marks a closed one by -1); the other four
  configure the descriptor through the OS and report whether that worked.
\<close>

definition is_valid :: "int \<Rightarrow> bool" where
  "is_valid fd \<longleftrightarrow> 0 \<le> fd"

definition enable_reuse :: "os_answers \<Rightarrow> int \<Rightarrow> 'u world \<Rightarrow> bool \<times> 'u world" where
  "enable_reuse os fd w = (enable_reuse_ok os, emit (Call_enable_reuse fd) w)"

definition make_multicast :: "os_answers \<Rightarrow> int \<Rightarrow> 'u world \<Rightarrow> bool \<times> 'u world" where
  "make_multicast os fd w = (make_multicast_ok os, emit (Call_make_multicast fd) w)"

definition set_receive_timeout :: "os_answers \<Rightarrow> int \<Rightarrow> real \<Rightarrow> 'u world \<Rightarrow> bool \<times> 'u world" where
  "set_receive_timeout os fd timeout w =
     (set_receive_timeout_ok os, emit (Call_set_receive_timeout fd timeout) w)"

definition add_multicast_group :: "os_answers \<Rightarrow> int \<Rightarrow> string \<Rightarrow> 'u world \<Rightarrow> bool \<times> 'u world" where
  "add_multicast_group os fd grp w =
     (add_multicast_group_ok os, emit (Call_add_multicast_group fd grp) w)"

subsection \<open>The socket object\<close>

text \<open>
  A callback may have effects of its own; they are its action on the caller's state \<open>'u\<close>.
  A \<^verbatim>\<open>std::function\<close> that is empty (\<^verbatim>\<open>nullptr\<close>) is \<open>None\<close>.
\<close>

type_synonym 'u receive_callback_fn = "byte list \<Rightarrow> Info \<Rightarrow> 'u \<Rightarrow> byte list option \<times> 'u"
type_synonym 'u response_callback_fn = "byte list \<Rightarrow> 'u \<Rightarrow> 'u"

text \<open>
  Fields of \<^verbatim>\<open>ReceiveConfig\<close> and \<^verbatim>\<open>SendConfig\<close> that share a name in the source
  (\<^verbatim>\<open>port\<close>, \<^verbatim>\<open>is_multicast_endpoint\<close>) carry the prefix of their struct here.
\<close>

record 'u ReceiveConfig =
  recv_port :: nat
  buffer_size :: nat
  recv_is_multicast_endpoint :: bool
  multicast_group :: string
  on_receive_callback :: "'u receive_callback_fn option"

record 'u SendConfig =
  ip_address :: string
  send_port :: nat
  send_is_multicast_endpoint :: bool
  wait_for_response :: bool
  response_size :: nat
  on_response_callback :: "'u response_callback_fn option"
  response_timeout :: real

text \<open>
  Modelled from the spec: the worker \<^verbatim>\<open>Task\<close> and \<^verbatim>\<open>Task::Config\<close> are declared in
  task.hpp, which is not among the sources. The spec describes a worker that accepts a
  repeating callback and exposes \<^verbatim>\<open>start()\<close> and \<^verbatim>\<open>is_started()\<close>. The only callback the
  socket installs is its own \<^verbatim>\<open>server_task_function\<close> bound to a buffer size.
\<close>

datatype task_callback = Server_task_function nat

record Task_Config =
  callback :: "task_callback option"

record Task =
  config :: Task_Config
  started :: bool

definition make_unique :: "Task_Config \<Rightarrow> Task" where
  "make_unique cfg = \<lparr>config = cfg, started = False\<rparr>"

definition is_started :: "Task \<Rightarrow> bool" where
  "is_started t = started t"

definition start :: "Task \<Rightarrow> 'u world \<Rightarrow> Task \<times> 'u world" where
  "start t w = (t\<lparr>started := True\<rparr>, emit Call_task_start w)"

text \<open>
  The members \<^verbatim>\<open>socket_\<close>, \<^verbatim>\<open>task_\<close>, \<^verbatim>\<open>server_receive_callback_\<close>,
  \<^verbatim>\<open>address_family_\<close> and \<^verbatim>\<open>ip_protocol_\<close> are written with the prefix \<open>m_\<close> in
  place of the trailing underscore. The logger is not a field: its calls are events.
\<close>

record 'u UdpSocket =
  m_socket :: int
  m_task :: "Task option"
  m_server_receive_callback :: "'u receive_callback_fn option"

subsection \<open>receive and send\<close>

definition receive ::
  "os_answers \<Rightarrow> 'u UdpSocket \<Rightarrow> 'u world \<Rightarrow> nat \<Rightarrow> byte list \<Rightarrow> Info \<Rightarrow>
     bool \<times> byte list \<times> Info \<times> 'u world" where
  "receive os s w max_num_bytes data remote_info =
     (if \<not> is_valid (m_socket s)
      then (False, data, remote_info, logger LogError ''Socket invalid, cannot receive.'' w)
      else
        let w1 = logger LogInfo ''Receiving up to {} bytes'' w;
            (num_bytes_received, receive_buffer, remote_address, w2) =
               os_recvfrom os (m_socket s) max_num_bytes (ipv4_ptr remote_info) w1
        in if num_bytes_received < 0
           then (False, data, remote_info\<lparr>raw := remote_address\<rparr>,
                 logger LogError ''Receive failed'' w2)
           else (True,
                 take (nat num_bytes_received) receive_buffer,
                 update_Info (remote_info\<lparr>raw := remote_address\<rparr>),
                 logger LogDebug ''Received {} bytes from {}'' w2))"

definition send ::
  "os_answers \<Rightarrow> 'u UdpSocket \<Rightarrow> 'u world \<Rightarrow> byte list \<Rightarrow> 'u SendConfig \<Rightarrow> bool \<times> 'u world" where
  "send os s w data send_config =
     (if \<not> is_valid (m_socket s)
      then (False, logger LogError ''Socket invalid, cannot send'' w)
      else
        let (multicast_ok, w1) =
              (if send_is_multicast_endpoint send_config
               then make_multicast os (m_socket s) w else (True, w))
        in if \<not> multicast_ok
           then (False, logger LogError ''Cannot make multicast'' w1)
           else
             let (timeout_ok, w2) =
                   set_receive_timeout os (m_socket s) (response_timeout send_config) w1
             in if \<not> timeout_ok
                then (False, logger LogError ''Could not set receive timeout to {}'' w2)
                else
                  let server_info = init_ipv4 (ip_address send_config) (send_port send_config);
                      w3 = logger LogInfo ''Client sending {} bytes to {}:{}'' w2;
                      (num_bytes_sent, w4) =
                         os_sendto os (m_socket s) data (ipv4_ptr server_info) w3
                  in if num_bytes_sent < 0
                     then (False, logger LogError ''Error occurred during sending'' w4)
                     else
                       let w5 = logger LogDebug ''Client sent {} bytes'' w4
                       in if \<not> wait_for_response send_config then (True, w5)
                          else if response_size send_config = 0
                          then (True, logger LogWarn
                                  ''Response requested, but response_size=0, not waiting for response!'' w5)
                          else
                            let w6 = logger LogInfo ''Client waiting for response'' w5;
                                (received, received_data, server_info', w7) =
                                   receive os s w6 (response_size send_config) [] server_info
                            in if \<not> received
                               then (False, logger LogWarn ''Client could not get response'' w7)
                               else
                                 let w8 = logger LogInfo ''Client got {} bytes of response'' w7
                                 in (case on_response_callback send_config of
                                       None \<Rightarrow> (True, w8)
                                     | Some on_response \<Rightarrow>
                                         let w9 = logger LogDebug ''Client calling response callback'' w8
                                         in (True,
                                             emit (Call_on_response received_data)
                                               (w9\<lparr>user := on_response received_data (user w9)\<rparr>))))"

subsection \<open>start_receiving\<close>

text \<open>
  The task configuration is taken by reference and its callback is overwritten, so the
  call returns it next to the object and the world.
\<close>

definition start_receiving ::
  "os_answers \<Rightarrow> 'u UdpSocket \<Rightarrow> 'u world \<Rightarrow> Task_Config \<Rightarrow> 'u ReceiveConfig \<Rightarrow>
     bool \<times> Task_Config \<times> 'u UdpSocket \<times> 'u world" where
  "start_receiving os s w task_config receive_config =
     (if (case m_task s of None \<Rightarrow> False | Some t \<Rightarrow> is_started t)
      then (False, task_config, s, logger LogError ''Server is alrady receiving'' w)
      else if \<not> is_valid (m_socket s)
      then (False, task_config, s, logger LogError ''Socket invalid, cannot start receiving.'' w)
      else
        let s1 = s\<lparr>m_server_receive_callback := on_receive_callback receive_config\<rparr>;
            server_addr = \<lparr>sin_family = m_address_family,
                           sin_port = htons (recv_port receive_config),
                           sin_addr = htonl INADDR_ANY\<rparr>;
            (err, w1) = os_bind os (m_socket s1) server_addr w
        in if err < 0
           then (False, task_config, s1, logger LogError ''Unable to bind'' w1)
           else
             let (multicast_ok, w2) =
                   (if recv_is_multicast_endpoint receive_config
                    then make_multicast os (m_socket s1) w1 else (True, w1))
             in if \<not> multicast_ok
                then (False, task_config, s1,
                      logger LogError ''Unable to make bound socket multicast'' w2)
                else
                  let (group_ok, w3) =
                        (if recv_is_multicast_endpoint receive_config
                         then add_multicast_group os (m_socket s1)
                                (multicast_group receive_config) w2
                         else (True, w2))
                  in if \<not> group_ok
                     then (False, task_config, s1,
                           logger LogError ''Unable to add multicast group to bound socket'' w3)
                     else
                       let task_config' =
                             task_config\<lparr>callback :=
                               Some (Server_task_function (buffer_size receive_config))\<rparr>;
                           (t, w4) = start (make_unique task_config') w3
                       in (True, task_config', s1\<lparr>m_task := Some t\<rparr>, w4))"

subsection \<open>init, cleanup, construction and destruction\<close>

definition init :: "os_answers \<Rightarrow> 'u UdpSocket \<Rightarrow> 'u world \<Rightarrow> bool \<times> 'u UdpSocket \<times> 'u world" where
  "init os s w =
     (let (fd, w1) = os_socket os m_address_family SOCK_DGRAM m_ip_protocol w;
          s1 = s\<lparr>m_socket := fd\<rparr>
      in if \<not> is_valid (m_socket s1)
         then (False, s1, logger LogError ''Cannot create socket'' w1)
         else
           let (reuse_ok, w2) = enable_reuse os (m_socket s1) w1
           in if \<not> reuse_ok
              then (False, s1, logger LogError ''Cannot enable reuse'' w2)
              else (True, s1, w2))"

definition cleanup :: "'u UdpSocket \<Rightarrow> 'u world \<Rightarrow> 'u UdpSocket \<times> 'u world" where
  "cleanup s w =
     (if is_valid (m_socket s)
      then
        let w1 = os_shutdown (m_socket s) 0 w;
            w2 = os_close (m_socket s) w1
        in (s\<lparr>m_socket := - 1\<rparr>, logger LogInfo ''Closed socket'' w2)
      else (s, w))"

text \<open>
  The constructor runs \<open>init\<close> and drops its result. Before \<open>init\<close> the task pointer
  and the callback are empty and \<^verbatim>\<open>socket_\<close> is not initialised; \<open>init\<close> assigns it
  before anything reads it, and \<open>fd0\<close> stands for what it held.
\<close>

definition construct :: "int \<Rightarrow> os_answers \<Rightarrow> 'u world \<Rightarrow> 'u UdpSocket \<times> 'u world" where
  "construct fd0 os w =
     (let (initialized, s, w1) =
            init os \<lparr>m_socket = fd0, m_task = None, m_server_receive_callback = None\<rparr> w
      in (s, w1))"

definition destruct :: "'u UdpSocket \<Rightarrow> 'u world \<Rightarrow> 'u UdpSocket \<times> 'u world" where
  "destruct s w = cleanup s w"

subsection \<open>The server loop\<close>

text \<open>
  One invocation of \<^verbatim>\<open>server_task_function\<close>. It returns nothing and assigns no member,
  so its result is the world alone. \<^verbatim>\<open>cv.wait_for(lk, 1ms)\<close> is the event
  \<open>Call_wait_for 1\<close>. The parameter \<^verbatim>\<open>buffer_size\<close> is \<open>buffer_len\<close> here, the
  field of \<open>ReceiveConfig\<close> having taken the name.
\<close>

definition server_task_function ::
  "os_answers \<Rightarrow> 'u UdpSocket \<Rightarrow> 'u world \<Rightarrow> nat \<Rightarrow> 'u world" where
  "server_task_function os s w buffer_len =
     (let (received, received_data, sender_info, w1) =
            receive os s w buffer_len [] default_Info
      in if \<not> received then emit (Call_wait_for 1) w1
         else
           case m_server_receive_callback s of
             None \<Rightarrow> logger LogError ''Server receive callback is invalid'' w1
           | Some on_receive \<Rightarrow>
               let (maybe_response, u) = on_receive received_data sender_info (user w1);
                   w2 = emit (Call_on_receive received_data sender_info) (w1\<lparr>user := u\<rparr>)
               in (case maybe_response of
                     None \<Rightarrow> w2
                   | Some response \<Rightarrow>
                       let w3 = logger LogInfo
                                  ''Server responding to {} with message of length {}'' w2;
                           (num_bytes_sent, w4) =
                              os_sendto os (m_socket s) response (ipv4_ptr sender_info) w3;
                           w5 = (if num_bytes_sent < 0
                                 then logger LogError ''Error occurred responding'' w4
                                 else w4)
                       in logger LogInfo ''Server responded with {} bytes'' w5))"

text \<open>
  Modelled from the spec: the worker is declared in task.hpp, which is not among the
  sources. The spec says that it runs the supplied callback repeatedly until it is
  stopped from outside. A run of the worker is the list of what the OS answers in each
  of its iterations; the callback is the one \<open>start_receiving\<close> installed.
\<close>

fun run_task_callback :: "task_callback \<Rightarrow> os_answers \<Rightarrow> 'u UdpSocket \<Rightarrow> 'u world \<Rightarrow> 'u world" where
  "run_task_callback (Server_task_function buffer_len) os s w =
     server_task_function os s w buffer_len"

fun worker_iterations ::
  "task_callback \<Rightarrow> os_answers list \<Rightarrow> 'u UdpSocket \<Rightarrow> 'u world \<Rightarrow> 'u world" where
  "worker_iterations cb [] s w = w"
| "worker_iterations cb (os # oss) s w =
     worker_iterations cb oss s (run_task_callback cb os s w)"

subsection \<open>Vocabulary of the statements\<close>

text \<open>The call of the multicast step of \<open>send\<close>, when the configuration asks for it.\<close>

definition multicast_calls :: "bool \<Rightarrow> int \<Rightarrow> event list" where
  "multicast_calls mc fd = (if mc then [Call_make_multicast fd] else [])"

fun is_sendto :: "event \<Rightarrow> bool" where
  "is_sendto (Call_sendto _ _ _) = True"
| "is_sendto _ = False"

fun is_recvfrom :: "event \<Rightarrow> bool" where
  "is_recvfrom (Call_recvfrom _ _) = True"
| "is_recvfrom _ = False"

fun is_wait_for :: "event \<Rightarrow> bool" where
  "is_wait_for (Call_wait_for _) = True"
| "is_wait_for _ = False"

subsection \<open>A concrete client and server\<close>

text \<open>
  The scenario of the spec: a client sends PING to 127.0.0.1:5000 and waits for four
  bytes; the server answers PONG. The client's callback keeps the response as the
  caller's state, the server's callback echoes what it got.
\<close>

definition ping :: "byte list" where
  "ping = [0x50, 0x49, 0x4E, 0x47]"

definition pong :: "byte list" where
  "pong = [0x50, 0x4F, 0x4E, 0x47]"

definition keep_response :: "(byte list) response_callback_fn" where
  "keep_response d u = d"

definition echo :: "(byte list) receive_callback_fn" where
  "echo d i u = (Some d, d)"

definition a_socket :: "(byte list) UdpSocket" where
  "a_socket = \<lparr>m_socket = 3, m_task = None, m_server_receive_callback = None\<rparr>"

definition a_server :: "(byte list) UdpSocket" where
  "a_server = \<lparr>m_socket = 3,
                m_task = Some \<lparr>config = \<lparr>callback = Some (Server_task_function 64)\<rparr>,
                               started = True\<rparr>,
                m_server_receive_callback = Some echo\<rparr>"

definition a_world :: "(byte list) world" where
  "a_world = \<lparr>events = [], user = []\<rparr>"

definition os_fine :: os_answers where
  "os_fine = \<lparr>socket_ret = 3, enable_reuse_ok = True, make_multicast_ok = True,
              set_receive_timeout_ok = True, add_multicast_group_ok = True,
              bind_ret = 0, sendto_ret = 4,
              recvfrom_ans = Datagram pong (''127.0.0.1'', 5000)\<rparr>"

definition os_silent :: os_answers where
  "os_silent = os_fine\<lparr>recvfrom_ans := RecvFail\<rparr>"

definition ping_config :: "(byte list) SendConfig" where
  "ping_config = \<lparr>ip_address = ''127.0.0.1'', send_port = 5000,
                  send_is_multicast_endpoint = False, wait_for_response = True,
                  response_size = 4, on_response_callback = Some keep_response,
                  response_timeout = 1 / 2\<rparr>"

definition a_receive_config :: "(byte list) ReceiveConfig" where
  "a_receive_config = \<lparr>recv_port = 5001, buffer_size = 64,
                       recv_is_multicast_endpoint = False, multicast_group = [],
                       on_receive_callback = Some echo\<rparr>"

definition a_task_config :: Task_Config where
  "a_task_config = \<lparr>callback = None\<rparr>"

section \<open>Properties\<close>

subsection \<open>Events and worlds\<close>

lemma calls_emit: "calls (emit e w) = calls w @ (if is_log e then [] else [e])"
  by (simp add: calls_def emit_def)

lemma calls_logger: "calls (logger l m w) = calls w"
  by (simp add: calls_def logger_def emit_def)

lemma user_emit: "user (emit e w) = user w"
  by (simp add: emit_def)

lemma user_logger: "user (logger l m w) = user w"
  by (simp add: logger_def emit_def)

lemma calls_user_update: "calls (w\<lparr>user := u\<rparr>) = calls w"
  by (simp add: calls_def)

lemma logged_emit:
  "logged lvl (emit e w) =
     logged lvl w @ (case e of Logged l m \<Rightarrow> (if l = lvl then [m] else []) | _ \<Rightarrow> [])"
  by (simp add: logged_def emit_def)

lemma logged_logger: "logged lvl (logger l m w) = logged lvl w @ (if l = lvl then [m] else [])"
  by (simp add: logger_def logged_emit)

lemma logged_user_update: "logged lvl (w\<lparr>user := u\<rparr>) = logged lvl w"
  by (simp add: logged_def)

lemmas world_simps = calls_emit calls_logger user_emit user_logger calls_user_update

subsection \<open>receive\<close>

lemma receive_invalid:
  "\<not> is_valid (m_socket s) \<Longrightarrow>
     receive os s w n d r = (False, d, r, logger LogError ''Socket invalid, cannot receive.'' w)"
  by (simp add: receive_def)

lemma receive_fail:
  "is_valid (m_socket s) \<Longrightarrow> recvfrom_ans os = RecvFail \<Longrightarrow>
     receive os s w n d r =
       (False, d, r,
        logger LogError ''Receive failed''
          (emit (Call_recvfrom (m_socket s) n) (logger LogInfo ''Receiving up to {} bytes'' w)))"
  by (simp add: receive_def os_recvfrom_def ipv4_ptr_def)

lemma receive_datagram:
  "is_valid (m_socket s) \<Longrightarrow> recvfrom_ans os = Datagram payload sender \<Longrightarrow>
     receive os s w n d r =
       (True, take n payload, \<lparr>address = fst sender, port = snd sender, raw = sender\<rparr>,
        logger LogDebug ''Received {} bytes from {}''
          (emit (Call_recvfrom (m_socket s) n) (logger LogInfo ''Receiving up to {} bytes'' w)))"
  by (simp add: receive_def os_recvfrom_def ipv4_ptr_def update_Info_def min_def)

text \<open>
  C2. On a valid socket, when the OS primitive returns a count \<open>n\<close> that is not negative,
  \<open>receive\<close> succeeds, the data are the first \<open>n\<close> bytes of the receive buffer and the
  remote info is refreshed to the sender the primitive reported; when the primitive
  returns a negative result, \<open>receive\<close> fails and hands back data and remote info as
  they came in.
\<close>

theorem receive_result:
  assumes "is_valid (m_socket s)"
    and "os_recvfrom os (m_socket s) max_num_bytes (ipv4_ptr remote_info)
           (logger LogInfo ''Receiving up to {} bytes'' w) = (n, buf, sender, w')"
  shows "(0 \<le> n \<longrightarrow>
            receive os s w max_num_bytes data remote_info =
              (True, take (nat n) buf,
               \<lparr>address = fst sender, port = snd sender, raw = sender\<rparr>,
               logger LogDebug ''Received {} bytes from {}'' w'))
       \<and> (n < 0 \<longrightarrow>
            receive os s w max_num_bytes data remote_info =
              (False, data, remote_info, logger LogError ''Receive failed'' w'))
       \<and> (recvfrom_ans os = Datagram payload origin \<longrightarrow>
            0 \<le> n \<and> take (nat n) buf = take max_num_bytes payload \<and> sender = origin)
       \<and> calls w' = calls w @ [Call_recvfrom (m_socket s) max_num_bytes]"
  using assms
  by (auto simp add: receive_def Let_def update_Info_def os_recvfrom_def ipv4_ptr_def min_def
        world_simps split: recv_outcome.splits)

theorem receive_result_witness:
  "receive os_fine a_socket a_world 3 [] default_Info =
     (True, [0x50, 0x4F, 0x4E],
      \<lparr>address = ''127.0.0.1'', port = 5000, raw = (''127.0.0.1'', 5000)\<rparr>,
      logger LogDebug ''Received {} bytes from {}''
        (emit (Call_recvfrom 3 3) (logger LogInfo ''Receiving up to {} bytes'' a_world)))
   \<and> receive os_silent a_socket a_world 3 ping default_Info =
     (False, ping, default_Info,
      logger LogError ''Receive failed''
        (emit (Call_recvfrom 3 3) (logger LogInfo ''Receiving up to {} bytes'' a_world)))"
proof -
  have valid: "is_valid (m_socket a_socket)"
    by (simp add: a_socket_def is_valid_def)
  have fine: "os_recvfrom os_fine (m_socket a_socket) 3 (ipv4_ptr default_Info)
                (logger LogInfo ''Receiving up to {} bytes'' a_world) =
              (3, [0x50, 0x4F, 0x4E], (''127.0.0.1'', 5000),
               emit (Call_recvfrom 3 3) (logger LogInfo ''Receiving up to {} bytes'' a_world))"
    by (simp add: os_recvfrom_def os_fine_def pong_def a_socket_def)
  have silent: "os_recvfrom os_silent (m_socket a_socket) 3 (ipv4_ptr default_Info)
                (logger LogInfo ''Receiving up to {} bytes'' a_world) =
              (- 1, replicate 3 0, ipv4_ptr default_Info,
               emit (Call_recvfrom 3 3) (logger LogInfo ''Receiving up to {} bytes'' a_world))"
    by (simp add: os_recvfrom_def os_silent_def os_fine_def a_socket_def)
  from receive_result [OF valid fine, where data = "[]"]
       receive_result [OF valid silent, where data = ping]
  show ?thesis by simp
qed

subsection \<open>send\<close>

text \<open>
  C1. On a valid socket, with \<open>wait_for_response\<close> set and a positive \<open>response_size\<close>,
  once the transmission has succeeded: if the one receive of at most \<open>response_size\<close>
  bytes fails, \<open>send\<close> returns failure; if it succeeds and a response callback is
  registered, the callback is called with exactly the received bytes, as the last call
  of \<open>send\<close>, and \<open>send\<close> returns success.
\<close>

theorem send_wait_for_response:
  assumes "is_valid (m_socket s)"
    and "send_is_multicast_endpoint cfg \<longrightarrow> make_multicast_ok os"
    and "set_receive_timeout_ok os"
    and "0 \<le> sendto_ret os"
    and "wait_for_response cfg"
    and "0 < response_size cfg"
  shows "(recvfrom_ans os = RecvFail \<longrightarrow>
            fst (send os s w data cfg) = False
          \<and> calls (snd (send os s w data cfg)) =
              calls w @ multicast_calls (send_is_multicast_endpoint cfg) (m_socket s) @
                [Call_set_receive_timeout (m_socket s) (response_timeout cfg),
                 Call_sendto (m_socket s) data (ip_address cfg, send_port cfg),
                 Call_recvfrom (m_socket s) (response_size cfg)]
          \<and> user (snd (send os s w data cfg)) = user w)
       \<and> (recvfrom_ans os = Datagram payload sender \<and> on_response_callback cfg = Some on_response \<longrightarrow>
            fst (send os s w data cfg) = True
          \<and> calls (snd (send os s w data cfg)) =
              calls w @ multicast_calls (send_is_multicast_endpoint cfg) (m_socket s) @
                [Call_set_receive_timeout (m_socket s) (response_timeout cfg),
                 Call_sendto (m_socket s) data (ip_address cfg, send_port cfg),
                 Call_recvfrom (m_socket s) (response_size cfg),
                 Call_on_response (take (response_size cfg) payload)]
          \<and> user (snd (send os s w data cfg)) =
              on_response (take (response_size cfg) payload) (user w))"
  using assms
  by (auto simp add: send_def Let_def receive_fail receive_datagram make_multicast_def
        set_receive_timeout_def os_sendto_def init_ipv4_def ipv4_ptr_def world_simps
        multicast_calls_def)

theorem send_wait_for_response_witness:
  "fst (send os_silent a_socket a_world ping ping_config) = False
   \<and> user (snd (send os_silent a_socket a_world ping ping_config)) = []
   \<and> fst (send os_fine a_socket a_world ping ping_config) = True
   \<and> user (snd (send os_fine a_socket a_world ping ping_config)) = pong
   \<and> calls (snd (send os_fine a_socket a_world ping ping_config)) =
       [Call_set_receive_timeout 3 (1 / 2), Call_sendto 3 ping (''127.0.0.1'', 5000),
        Call_recvfrom 3 4, Call_on_response pong]"
proof -
  have valid: "is_valid (m_socket a_socket)"
    by (simp add: a_socket_def is_valid_def)
  have mc: "send_is_multicast_endpoint ping_config \<longrightarrow> make_multicast_ok os" for os :: os_answers
    by (simp add: ping_config_def)
  have timeout: "set_receive_timeout_ok os_fine" "set_receive_timeout_ok os_silent"
    by (simp_all add: os_fine_def os_silent_def)
  have sent: "0 \<le> sendto_ret os_fine" "0 \<le> sendto_ret os_silent"
    by (simp_all add: os_fine_def os_silent_def)
  have wait: "wait_for_response ping_config" "0 < response_size ping_config"
    by (simp_all add: ping_config_def)
  have silent: "recvfrom_ans os_silent = RecvFail"
    by (simp add: os_silent_def)
  have fine: "recvfrom_ans os_fine = Datagram pong (''127.0.0.1'', 5000)
              \<and> on_response_callback ping_config = Some keep_response"
    by (simp add: os_fine_def ping_config_def)
  from send_wait_for_response [OF valid mc timeout(2) sent(2) wait,
         where w = a_world and data = ping] silent
  have "fst (send os_silent a_socket a_world ping ping_config) = False
        \<and> user (snd (send os_silent a_socket a_world ping ping_config)) = []"
    by (simp add: a_world_def)
  moreover
  from send_wait_for_response [OF valid mc timeout(1) sent(1) wait,
         where w = a_world and data = ping and payload = pong
           and sender = "(''127.0.0.1'', 5000)" and on_response = keep_response] fine
  have "fst (send os_fine a_socket a_world ping ping_config) = True
        \<and> user (snd (send os_fine a_socket a_world ping ping_config)) = pong
        \<and> calls (snd (send os_fine a_socket a_world ping ping_config)) =
            [Call_set_receive_timeout 3 (1 / 2), Call_sendto 3 ping (''127.0.0.1'', 5000),
             Call_recvfrom 3 4, Call_on_response pong]"
    by (simp add: a_world_def a_socket_def ping_config_def keep_response_def pong_def
          multicast_calls_def calls_def)
  ultimately show ?thesis by simp
qed

text \<open>
  C3. On a valid socket the steps of \<open>send\<close> come in this order, and a step that fails
  ends the call with failure before a later step is taken: the multicast configuration
  (only for a multicast endpoint), the receive timeout (whatever \<open>wait_for_response\<close>
  says), then one \<open>sendto\<close> of the data as they are (the empty payload included), whose
  negative result ends the call with failure. No second \<open>sendto\<close> follows. A result of
  \<open>sendto\<close> that is not negative, zero included, is no failure: without a response to
  wait for the call returns success right after it, and otherwise its result is that of
  the one receive.
\<close>

theorem send_step_order:
  assumes "is_valid (m_socket s)"
  shows "(send_is_multicast_endpoint cfg \<and> \<not> make_multicast_ok os \<longrightarrow>
            fst (send os s w data cfg) = False
          \<and> calls (snd (send os s w data cfg)) = calls w @ [Call_make_multicast (m_socket s)])
       \<and> ((send_is_multicast_endpoint cfg \<longrightarrow> make_multicast_ok os) \<and> \<not> set_receive_timeout_ok os \<longrightarrow>
            fst (send os s w data cfg) = False
          \<and> calls (snd (send os s w data cfg)) =
              calls w @ multicast_calls (send_is_multicast_endpoint cfg) (m_socket s) @
                [Call_set_receive_timeout (m_socket s) (response_timeout cfg)])
       \<and> ((send_is_multicast_endpoint cfg \<longrightarrow> make_multicast_ok os) \<and> set_receive_timeout_ok os
            \<and> sendto_ret os < 0 \<longrightarrow>
            fst (send os s w data cfg) = False
          \<and> calls (snd (send os s w data cfg)) =
              calls w @ multicast_calls (send_is_multicast_endpoint cfg) (m_socket s) @
                [Call_set_receive_timeout (m_socket s) (response_timeout cfg),
                 Call_sendto (m_socket s) data (ip_address cfg, send_port cfg)])
       \<and> ((send_is_multicast_endpoint cfg \<longrightarrow> make_multicast_ok os) \<and> set_receive_timeout_ok os
            \<and> 0 \<le> sendto_ret os \<longrightarrow>
            (\<exists>rest. calls (snd (send os s w data cfg)) =
              calls w @ multicast_calls (send_is_multicast_endpoint cfg) (m_socket s) @
                [Call_set_receive_timeout (m_socket s) (response_timeout cfg),
                 Call_sendto (m_socket s) data (ip_address cfg, send_port cfg)] @ rest
              \<and> filter is_sendto rest = []))
       \<and> ((send_is_multicast_endpoint cfg \<longrightarrow> make_multicast_ok os) \<and> set_receive_timeout_ok os
            \<and> 0 \<le> sendto_ret os \<and> (\<not> wait_for_response cfg \<or> response_size cfg = 0) \<longrightarrow>
            fst (send os s w data cfg) = True
          \<and> calls (snd (send os s w data cfg)) =
              calls w @ multicast_calls (send_is_multicast_endpoint cfg) (m_socket s) @
                [Call_set_receive_timeout (m_socket s) (response_timeout cfg),
                 Call_sendto (m_socket s) data (ip_address cfg, send_port cfg)])
       \<and> ((send_is_multicast_endpoint cfg \<longrightarrow> make_multicast_ok os) \<and> set_receive_timeout_ok os
            \<and> 0 \<le> sendto_ret os \<longrightarrow>
            fst (send os s w data cfg) =
              (\<not> wait_for_response cfg \<or> response_size cfg = 0 \<or> recvfrom_ans os \<noteq> RecvFail))"
  using assms
  by (cases "recvfrom_ans os")
     (auto simp add: send_def Let_def receive_fail receive_datagram make_multicast_def
        set_receive_timeout_def os_sendto_def init_ipv4_def ipv4_ptr_def world_simps
        multicast_calls_def
        split: option.splits)

theorem send_step_order_witness:
  "fst (send (os_fine\<lparr>make_multicast_ok := False\<rparr>) a_socket a_world []
          (ping_config\<lparr>send_is_multicast_endpoint := True\<rparr>)) = False
   \<and> calls (snd (send (os_fine\<lparr>make_multicast_ok := False\<rparr>) a_socket a_world []
          (ping_config\<lparr>send_is_multicast_endpoint := True\<rparr>))) = [Call_make_multicast 3]
   \<and> fst (send (os_fine\<lparr>set_receive_timeout_ok := False\<rparr>) a_socket a_world []
          (ping_config\<lparr>wait_for_response := False\<rparr>)) = False
   \<and> calls (snd (send (os_fine\<lparr>set_receive_timeout_ok := False\<rparr>) a_socket a_world []
          (ping_config\<lparr>wait_for_response := False\<rparr>))) = [Call_set_receive_timeout 3 (1 / 2)]
   \<and> fst (send (os_fine\<lparr>sendto_ret := - 1\<rparr>) a_socket a_world []
          (ping_config\<lparr>wait_for_response := False\<rparr>)) = False
   \<and> calls (snd (send (os_fine\<lparr>sendto_ret := - 1\<rparr>) a_socket a_world []
          (ping_config\<lparr>wait_for_response := False\<rparr>))) =
       [Call_set_receive_timeout 3 (1 / 2), Call_sendto 3 [] (''127.0.0.1'', 5000)]
   \<and> (\<exists>rest. calls (snd (send (os_fine\<lparr>sendto_ret := 0\<rparr>) a_socket a_world []
          (ping_config\<lparr>wait_for_response := False\<rparr>))) =
       [Call_set_receive_timeout 3 (1 / 2), Call_sendto 3 [] (''127.0.0.1'', 5000)] @ rest
       \<and> filter is_sendto rest = [])
   \<and> fst (send (os_fine\<lparr>sendto_ret := 0\<rparr>) a_socket a_world []
          (ping_config\<lparr>wait_for_response := False\<rparr>)) = True
   \<and> calls (snd (send (os_fine\<lparr>sendto_ret := 0\<rparr>) a_socket a_world []
          (ping_config\<lparr>wait_for_response := False\<rparr>))) =
       [Call_set_receive_timeout 3 (1 / 2), Call_sendto 3 [] (''127.0.0.1'', 5000)]
   \<and> fst (send (os_silent\<lparr>sendto_ret := 0\<rparr>) a_socket a_world [] ping_config) = False
   \<and> fst (send (os_fine\<lparr>sendto_ret := 0\<rparr>) a_socket a_world [] ping_config) = True"
proof -
  have valid: "is_valid (m_socket a_socket)"
    by (simp add: a_socket_def is_valid_def)
  from send_step_order [OF valid, where cfg = "ping_config\<lparr>send_is_multicast_endpoint := True\<rparr>"
         and os = "os_fine\<lparr>make_multicast_ok := False\<rparr>" and w = a_world and data = "[]"]
  have one: "fst (send (os_fine\<lparr>make_multicast_ok := False\<rparr>) a_socket a_world []
          (ping_config\<lparr>send_is_multicast_endpoint := True\<rparr>)) = False
   \<and> calls (snd (send (os_fine\<lparr>make_multicast_ok := False\<rparr>) a_socket a_world []
          (ping_config\<lparr>send_is_multicast_endpoint := True\<rparr>))) = [Call_make_multicast 3]"
    by (simp add: ping_config_def os_fine_def a_socket_def a_world_def calls_def)
  from send_step_order [OF valid, where cfg = "ping_config\<lparr>wait_for_response := False\<rparr>"
         and os = "os_fine\<lparr>set_receive_timeout_ok := False\<rparr>" and w = a_world and data = "[]"]
  have two: "fst (send (os_fine\<lparr>set_receive_timeout_ok := False\<rparr>) a_socket a_world []
          (ping_config\<lparr>wait_for_response := False\<rparr>)) = False
   \<and> calls (snd (send (os_fine\<lparr>set_receive_timeout_ok := False\<rparr>) a_socket a_world []
          (ping_config\<lparr>wait_for_response := False\<rparr>))) = [Call_set_receive_timeout 3 (1 / 2)]"
    by (simp add: ping_config_def os_fine_def a_socket_def a_world_def calls_def multicast_calls_def)
  from send_step_order [OF valid, where cfg = "ping_config\<lparr>wait_for_response := False\<rparr>"
         and os = "os_fine\<lparr>sendto_ret := - 1\<rparr>" and w = a_world and data = "[]"]
  have three: "fst (send (os_fine\<lparr>sendto_ret := - 1\<rparr>) a_socket a_world []
          (ping_config\<lparr>wait_for_response := False\<rparr>)) = False
   \<and> calls (snd (send (os_fine\<lparr>sendto_ret := - 1\<rparr>) a_socket a_world []
          (ping_config\<lparr>wait_for_response := False\<rparr>))) =
       [Call_set_receive_timeout 3 (1 / 2), Call_sendto 3 [] (''127.0.0.1'', 5000)]"
    by (simp add: ping_config_def os_fine_def a_socket_def a_world_def calls_def multicast_calls_def)
  from send_step_order [OF valid, where cfg = "ping_config\<lparr>wait_for_response := False\<rparr>"
         and os = "os_fine\<lparr>sendto_ret := 0\<rparr>" and w = a_world and data = "[]"]
  have four: "\<exists>rest. calls (snd (send (os_fine\<lparr>sendto_ret := 0\<rparr>) a_socket a_world []
          (ping_config\<lparr>wait_for_response := False\<rparr>))) =
       [Call_set_receive_timeout 3 (1 / 2), Call_sendto 3 [] (''127.0.0.1'', 5000)] @ rest
       \<and> filter is_sendto rest = []"
    by (simp add: ping_config_def os_fine_def a_socket_def a_world_def calls_def multicast_calls_def)
  from send_step_order [OF valid, where cfg = "ping_config\<lparr>wait_for_response := False\<rparr>"
         and os = "os_fine\<lparr>sendto_ret := 0\<rparr>" and w = a_world and data = "[]"]
  have five: "fst (send (os_fine\<lparr>sendto_ret := 0\<rparr>) a_socket a_world []
          (ping_config\<lparr>wait_for_response := False\<rparr>)) = True
   \<and> calls (snd (send (os_fine\<lparr>sendto_ret := 0\<rparr>) a_socket a_world []
          (ping_config\<lparr>wait_for_response := False\<rparr>))) =
       [Call_set_receive_timeout 3 (1 / 2), Call_sendto 3 [] (''127.0.0.1'', 5000)]"
    by (simp add: ping_config_def os_fine_def a_socket_def a_world_def calls_def multicast_calls_def)
  from send_step_order [OF valid, where cfg = ping_config
         and os = "os_silent\<lparr>sendto_ret := 0\<rparr>" and w = a_world and data = "[]"]
  have six: "fst (send (os_silent\<lparr>sendto_ret := 0\<rparr>) a_socket a_world [] ping_config) = False"
    by (simp add: ping_config_def os_fine_def os_silent_def)
  from send_step_order [OF valid, where cfg = ping_config
         and os = "os_fine\<lparr>sendto_ret := 0\<rparr>" and w = a_world and data = "[]"]
  have seven: "fst (send (os_fine\<lparr>sendto_ret := 0\<rparr>) a_socket a_world [] ping_config) = True"
    by (simp add: ping_config_def os_fine_def)
  from one two three four five six seven show ?thesis by simp
qed

text \<open>
  C4. On a valid socket whose transmission has succeeded, with \<open>wait_for_response\<close> set
  and \<open>response_size\<close> zero, \<open>send\<close> returns success, makes no receive and calls no
  callback; it logs a warning about the configuration and no error.
\<close>

theorem send_zero_response_size:
  assumes "is_valid (m_socket s)"
    and "send_is_multicast_endpoint cfg \<longrightarrow> make_multicast_ok os"
    and "set_receive_timeout_ok os"
    and "0 \<le> sendto_ret os"
    and "wait_for_response cfg"
    and "response_size cfg = 0"
  shows "fst (send os s w data cfg) = True
       \<and> calls (snd (send os s w data cfg)) =
           calls w @ multicast_calls (send_is_multicast_endpoint cfg) (m_socket s) @
             [Call_set_receive_timeout (m_socket s) (response_timeout cfg),
              Call_sendto (m_socket s) data (ip_address cfg, send_port cfg)]
       \<and> user (snd (send os s w data cfg)) = user w
       \<and> logged LogWarn (snd (send os s w data cfg)) =
           logged LogWarn w @
             [''Response requested, but response_size=0, not waiting for response!'']
       \<and> logged LogError (snd (send os s w data cfg)) = logged LogError w"
  using assms
  by (auto simp add: send_def Let_def make_multicast_def
        set_receive_timeout_def os_sendto_def init_ipv4_def ipv4_ptr_def world_simps
        multicast_calls_def logged_emit logged_logger)

theorem send_zero_response_size_witness:
  "fst (send os_fine a_socket a_world ping (ping_config\<lparr>response_size := 0\<rparr>)) = True
   \<and> calls (snd (send os_fine a_socket a_world ping (ping_config\<lparr>response_size := 0\<rparr>))) =
       [Call_set_receive_timeout 3 (1 / 2), Call_sendto 3 ping (''127.0.0.1'', 5000)]
   \<and> user (snd (send os_fine a_socket a_world ping (ping_config\<lparr>response_size := 0\<rparr>))) = []
   \<and> logged LogWarn (snd (send os_fine a_socket a_world ping (ping_config\<lparr>response_size := 0\<rparr>))) =
       [''Response requested, but response_size=0, not waiting for response!'']"
proof -
  have valid: "is_valid (m_socket a_socket)"
    by (simp add: a_socket_def is_valid_def)
  have mc: "send_is_multicast_endpoint (ping_config\<lparr>response_size := 0\<rparr>) \<longrightarrow> make_multicast_ok os_fine"
    by (simp add: ping_config_def)
  have timeout: "set_receive_timeout_ok os_fine"
    by (simp add: os_fine_def)
  have sent: "0 \<le> sendto_ret os_fine"
    by (simp add: os_fine_def)
  have wait: "wait_for_response (ping_config\<lparr>response_size := 0\<rparr>)"
    "response_size (ping_config\<lparr>response_size := 0\<rparr>) = 0"
    by (simp_all add: ping_config_def)
  from send_zero_response_size [OF valid mc timeout sent wait, where w = a_world and data = ping]
  show ?thesis
    by (simp add: ping_config_def a_socket_def a_world_def calls_def logged_def multicast_calls_def)
qed

subsection \<open>start_receiving\<close>

lemma start_receiving_active:
  "m_task s = Some t \<Longrightarrow> is_started t \<Longrightarrow>
     start_receiving os s w tc rc = (False, tc, s, logger LogError ''Server is alrady receiving'' w)"
  by (simp add: start_receiving_def)

lemma start_receiving_success:
  assumes "start_receiving os s w tc rc = (True, tc', s', w')"
  shows "m_task s' =
           Some \<lparr>config = tc\<lparr>callback := Some (Server_task_function (buffer_size rc))\<rparr>,
                 started = True\<rparr>
        \<and> m_server_receive_callback s' = on_receive_callback rc
        \<and> m_socket s' = m_socket s"
  using assms
  by (auto simp add: start_receiving_def Let_def os_bind_def make_multicast_def
        add_multicast_group_def start_def make_unique_def split: if_splits)

text \<open>
  C5. After a \<open>start_receiving\<close> that succeeded the worker is active, and a second
  \<open>start_receiving\<close>, whatever its arguments and whatever the OS would answer, returns
  failure, makes no call (no bind, no multicast step, no new worker) and leaves the
  object as the first call left it, the registered callback of the first call included.
\<close>

theorem second_start_receiving_rejected:
  assumes "start_receiving os1 s0 w0 tc1 rc1 = (True, tc1', s1, w1)"
  shows "(\<exists>t. m_task s1 = Some t \<and> is_started t)
       \<and> m_server_receive_callback s1 = on_receive_callback rc1
       \<and> fst (start_receiving os2 s1 w tc2 rc2) = False
       \<and> fst (snd (start_receiving os2 s1 w tc2 rc2)) = tc2
       \<and> fst (snd (snd (start_receiving os2 s1 w tc2 rc2))) = s1
       \<and> calls (snd (snd (snd (start_receiving os2 s1 w tc2 rc2)))) = calls w"
proof -
  from start_receiving_success [OF assms]
  obtain t where t: "m_task s1 = Some t" "is_started t"
    and cb: "m_server_receive_callback s1 = on_receive_callback rc1"
    by (auto simp add: is_started_def)
  from t show ?thesis
    by (simp add: start_receiving_active cb calls_logger)
qed

theorem second_start_receiving_rejected_witness:
  "fst (start_receiving os_fine a_socket a_world a_task_config a_receive_config) = True
   \<and> fst (start_receiving os_fine
        (fst (snd (snd (start_receiving os_fine a_socket a_world a_task_config a_receive_config))))
        a_world a_task_config (a_receive_config\<lparr>on_receive_callback := None\<rparr>)) = False
   \<and> m_server_receive_callback (fst (snd (snd (start_receiving os_fine
        (fst (snd (snd (start_receiving os_fine a_socket a_world a_task_config a_receive_config))))
        a_world a_task_config (a_receive_config\<lparr>on_receive_callback := None\<rparr>))))) = Some echo"
proof -
  define r where "r = start_receiving os_fine a_socket a_world a_task_config a_receive_config"
  have ok: "fst r = True"
    by (simp add: r_def start_receiving_def a_socket_def a_receive_config_def os_fine_def
          is_valid_def os_bind_def start_def make_unique_def Let_def)
  then have "r = (True, fst (snd r), fst (snd (snd r)), snd (snd (snd r)))"
    by (cases r) auto
  then have first: "start_receiving os_fine a_socket a_world a_task_config a_receive_config =
               (True, fst (snd r), fst (snd (snd r)), snd (snd (snd r)))"
    by (simp add: r_def)
  from second_start_receiving_rejected [OF first, where ?os2.0 = os_fine and w = a_world
         and ?tc2.0 = a_task_config and ?rc2.0 = "a_receive_config\<lparr>on_receive_callback := None\<rparr>"]
  show ?thesis
    unfolding r_def [symmetric] using ok by (simp add: a_receive_config_def)
qed

text \<open>
  C10. When \<open>start_receiving\<close> has passed its two tests (no active worker, valid
  socket) and then fails at the bind or at one of the two multicast steps, the object
  it leaves holds the callback of the new configuration: the registration is not undone.
\<close>

theorem failed_start_receiving_keeps_new_callback:
  assumes "\<not> (case m_task s of None \<Rightarrow> False | Some t \<Rightarrow> is_started t)"
    and "is_valid (m_socket s)"
    and "bind_ret os < 0
         \<or> (recv_is_multicast_endpoint rc
              \<and> (\<not> make_multicast_ok os \<or> \<not> add_multicast_group_ok os))"
  shows "fst (start_receiving os s w tc rc) = False
       \<and> fst (snd (snd (start_receiving os s w tc rc))) =
           s\<lparr>m_server_receive_callback := on_receive_callback rc\<rparr>"
  using assms
  by (auto simp add: start_receiving_def Let_def os_bind_def make_multicast_def
        add_multicast_group_def)

theorem failed_start_receiving_keeps_new_callback_witness:
  "fst (start_receiving (os_fine\<lparr>bind_ret := - 1\<rparr>) a_socket a_world a_task_config
          a_receive_config) = False
   \<and> m_server_receive_callback a_socket = None
   \<and> m_server_receive_callback
       (fst (snd (snd (start_receiving (os_fine\<lparr>bind_ret := - 1\<rparr>) a_socket a_world
          a_task_config a_receive_config)))) = Some echo"
proof -
  have idle: "\<not> (case m_task a_socket of None \<Rightarrow> False | Some t \<Rightarrow> is_started t)"
    by (simp add: a_socket_def)
  have valid: "is_valid (m_socket a_socket)"
    by (simp add: a_socket_def is_valid_def)
  have fails: "bind_ret (os_fine\<lparr>bind_ret := - 1\<rparr>) < 0
         \<or> (recv_is_multicast_endpoint a_receive_config
              \<and> (\<not> make_multicast_ok (os_fine\<lparr>bind_ret := - 1\<rparr>)
                  \<or> \<not> add_multicast_group_ok (os_fine\<lparr>bind_ret := - 1\<rparr>)))"
    by simp
  from failed_start_receiving_keeps_new_callback [OF idle valid fails,
         where w = a_world and tc = a_task_config]
  show ?thesis
    by (simp add: a_socket_def a_receive_config_def)
qed

text \<open>A port number (below 65536) goes through \<open>htons\<close> unchanged.\<close>

lemma htons_port: "p < 65536 \<Longrightarrow> unat (htons p) = p"
  by (simp add: htons_def unat_of_nat take_bit_nat_eq_self)

text \<open>
  C7. A first \<open>start_receiving\<close> on a valid socket binds the descriptor to the wildcard
  address and the configured port (as \<open>htons\<close> takes it, which is the configured port
  itself for every port number); a bind that fails ends the
  call with failure before any multicast step. For a multicast endpoint, reception is
  enabled and then the group is joined; either failure ends the call with failure, the
  descriptor being neither shut down nor closed. Otherwise the server loop, bound to the
  configured buffer size, becomes the callback of the task configuration, a worker is
  made from it and started, and the call returns success without any receive.
\<close>

theorem start_receiving_first_call:
  assumes "m_task s = None"
    and "is_valid (m_socket s)"
  shows "(bind_ret os < 0 \<longrightarrow>
            fst (start_receiving os s w tc rc) = False
          \<and> calls (snd (snd (snd (start_receiving os s w tc rc)))) =
              calls w @ [Call_bind (m_socket s)
                \<lparr>sin_family = AF_INET, sin_port = htons (recv_port rc), sin_addr = htonl INADDR_ANY\<rparr>])
       \<and> (0 \<le> bind_ret os \<and> recv_is_multicast_endpoint rc \<and> \<not> make_multicast_ok os \<longrightarrow>
            fst (start_receiving os s w tc rc) = False
          \<and> calls (snd (snd (snd (start_receiving os s w tc rc)))) =
              calls w @ [Call_bind (m_socket s)
                \<lparr>sin_family = AF_INET, sin_port = htons (recv_port rc), sin_addr = htonl INADDR_ANY\<rparr>,
                Call_make_multicast (m_socket s)])
       \<and> (0 \<le> bind_ret os \<and> recv_is_multicast_endpoint rc \<and> make_multicast_ok os
            \<and> \<not> add_multicast_group_ok os \<longrightarrow>
            fst (start_receiving os s w tc rc) = False
          \<and> calls (snd (snd (snd (start_receiving os s w tc rc)))) =
              calls w @ [Call_bind (m_socket s)
                \<lparr>sin_family = AF_INET, sin_port = htons (recv_port rc), sin_addr = htonl INADDR_ANY\<rparr>,
                Call_make_multicast (m_socket s),
                Call_add_multicast_group (m_socket s) (multicast_group rc)])
       \<and> (0 \<le> bind_ret os
            \<and> (recv_is_multicast_endpoint rc \<longrightarrow> make_multicast_ok os \<and> add_multicast_group_ok os) \<longrightarrow>
            fst (start_receiving os s w tc rc) = True
          \<and> fst (snd (start_receiving os s w tc rc)) =
              tc\<lparr>callback := Some (Server_task_function (buffer_size rc))\<rparr>
          \<and> m_task (fst (snd (snd (start_receiving os s w tc rc)))) =
              Some \<lparr>config = tc\<lparr>callback := Some (Server_task_function (buffer_size rc))\<rparr>,
                    started = True\<rparr>
          \<and> calls (snd (snd (snd (start_receiving os s w tc rc)))) =
              calls w @ [Call_bind (m_socket s)
                \<lparr>sin_family = AF_INET, sin_port = htons (recv_port rc), sin_addr = htonl INADDR_ANY\<rparr>] @
              (if recv_is_multicast_endpoint rc
               then [Call_make_multicast (m_socket s),
                     Call_add_multicast_group (m_socket s) (multicast_group rc)]
               else []) @
              [Call_task_start])
       \<and> m_socket (fst (snd (snd (start_receiving os s w tc rc)))) = m_socket s
       \<and> (recv_port rc < 65536 \<longrightarrow> unat (htons (recv_port rc)) = recv_port rc)"
  using assms
  by (auto simp add: start_receiving_def Let_def os_bind_def make_multicast_def
        add_multicast_group_def start_def make_unique_def m_address_family_def world_simps
        htons_port)

theorem start_receiving_first_call_witness:
  "fst (start_receiving (os_fine\<lparr>bind_ret := - 1\<rparr>) a_socket a_world a_task_config
         (a_receive_config\<lparr>recv_is_multicast_endpoint := True, multicast_group := ''239.1.1.1''\<rparr>))
     = False
   \<and> calls (snd (snd (snd (start_receiving (os_fine\<lparr>bind_ret := - 1\<rparr>) a_socket a_world
         a_task_config
         (a_receive_config\<lparr>recv_is_multicast_endpoint := True, multicast_group := ''239.1.1.1''\<rparr>)))))
     = [Call_bind 3 \<lparr>sin_family = 2, sin_port = 5001, sin_addr = 0\<rparr>]
   \<and> fst (start_receiving (os_fine\<lparr>add_multicast_group_ok := False\<rparr>) a_socket a_world
         a_task_config
         (a_receive_config\<lparr>recv_is_multicast_endpoint := True, multicast_group := ''239.1.1.1''\<rparr>))
     = False
   \<and> calls (snd (snd (snd (start_receiving (os_fine\<lparr>add_multicast_group_ok := False\<rparr>) a_socket
         a_world a_task_config
         (a_receive_config\<lparr>recv_is_multicast_endpoint := True, multicast_group := ''239.1.1.1''\<rparr>)))))
     = [Call_bind 3 \<lparr>sin_family = 2, sin_port = 5001, sin_addr = 0\<rparr>,
        Call_make_multicast 3, Call_add_multicast_group 3 ''239.1.1.1'']
   \<and> fst (start_receiving os_fine a_socket a_world a_task_config
         (a_receive_config\<lparr>recv_is_multicast_endpoint := True, multicast_group := ''239.1.1.1''\<rparr>))
     = True
   \<and> calls (snd (snd (snd (start_receiving os_fine a_socket a_world a_task_config
         (a_receive_config\<lparr>recv_is_multicast_endpoint := True, multicast_group := ''239.1.1.1''\<rparr>)))))
     = [Call_bind 3 \<lparr>sin_family = 2, sin_port = 5001, sin_addr = 0\<rparr>,
        Call_make_multicast 3, Call_add_multicast_group 3 ''239.1.1.1'', Call_task_start]
   \<and> m_task (fst (snd (snd (start_receiving os_fine a_socket a_world a_task_config
         (a_receive_config\<lparr>recv_is_multicast_endpoint := True, multicast_group := ''239.1.1.1''\<rparr>)))))
     = Some \<lparr>config = \<lparr>callback = Some (Server_task_function 64)\<rparr>, started = True\<rparr>"
proof -
  have first: "m_task a_socket = None"
    by (simp add: a_socket_def)
  have valid: "is_valid (m_socket a_socket)"
    by (simp add: a_socket_def is_valid_def)
  note inst = start_receiving_first_call [OF first valid, where w = a_world and tc = a_task_config
     and rc = "a_receive_config\<lparr>recv_is_multicast_endpoint := True, multicast_group := ''239.1.1.1''\<rparr>"]
  have vals: "m_socket a_socket = 3" "calls a_world = []" "AF_INET = 2"
    "htons 5001 = 5001" "htonl INADDR_ANY = 0"
    by (simp_all add: a_socket_def a_world_def calls_def AF_INET_def htons_def htonl_def
          INADDR_ANY_def)
  from inst [where os = "os_fine\<lparr>bind_ret := - 1\<rparr>"]
  have one: "fst (start_receiving (os_fine\<lparr>bind_ret := - 1\<rparr>) a_socket a_world a_task_config
         (a_receive_config\<lparr>recv_is_multicast_endpoint := True, multicast_group := ''239.1.1.1''\<rparr>))
     = False
   \<and> calls (snd (snd (snd (start_receiving (os_fine\<lparr>bind_ret := - 1\<rparr>) a_socket a_world
         a_task_config
         (a_receive_config\<lparr>recv_is_multicast_endpoint := True, multicast_group := ''239.1.1.1''\<rparr>)))))
     = [Call_bind 3 \<lparr>sin_family = 2, sin_port = 5001, sin_addr = 0\<rparr>]"
    by (simp add: vals a_receive_config_def)
  from inst [where os = "os_fine\<lparr>add_multicast_group_ok := False\<rparr>"]
  have two: "fst (start_receiving (os_fine\<lparr>add_multicast_group_ok := False\<rparr>) a_socket a_world
         a_task_config
         (a_receive_config\<lparr>recv_is_multicast_endpoint := True, multicast_group := ''239.1.1.1''\<rparr>))
     = False
   \<and> calls (snd (snd (snd (start_receiving (os_fine\<lparr>add_multicast_group_ok := False\<rparr>) a_socket
         a_world a_task_config
         (a_receive_config\<lparr>recv_is_multicast_endpoint := True, multicast_group := ''239.1.1.1''\<rparr>)))))
     = [Call_bind 3 \<lparr>sin_family = 2, sin_port = 5001, sin_addr = 0\<rparr>,
        Call_make_multicast 3, Call_add_multicast_group 3 ''239.1.1.1'']"
    by (simp add: vals a_receive_config_def os_fine_def)
  from inst [where os = os_fine]
  have three: "fst (start_receiving os_fine a_socket a_world a_task_config
         (a_receive_config\<lparr>recv_is_multicast_endpoint := True, multicast_group := ''239.1.1.1''\<rparr>))
     = True
   \<and> calls (snd (snd (snd (start_receiving os_fine a_socket a_world a_task_config
         (a_receive_config\<lparr>recv_is_multicast_endpoint := True, multicast_group := ''239.1.1.1''\<rparr>)))))
     = [Call_bind 3 \<lparr>sin_family = 2, sin_port = 5001, sin_addr = 0\<rparr>,
        Call_make_multicast 3, Call_add_multicast_group 3 ''239.1.1.1'', Call_task_start]
   \<and> m_task (fst (snd (snd (start_receiving os_fine a_socket a_world a_task_config
         (a_receive_config\<lparr>recv_is_multicast_endpoint := True, multicast_group := ''239.1.1.1''\<rparr>)))))
     = Some \<lparr>config = \<lparr>callback = Some (Server_task_function 64)\<rparr>, started = True\<rparr>"
    by (simp add: vals a_receive_config_def os_fine_def a_task_config_def)
  from one two three show ?thesis by simp
qed

subsection \<open>The server loop\<close>

lemma server_task_function_invalid:
  "\<not> is_valid (m_socket s) \<Longrightarrow>
     server_task_function os s w n =
       emit (Call_wait_for 1) (logger LogError ''Socket invalid, cannot receive.'' w)"
  by (simp add: server_task_function_def receive_invalid)

lemma server_task_function_fail:
  "is_valid (m_socket s) \<Longrightarrow> recvfrom_ans os = RecvFail \<Longrightarrow>
     server_task_function os s w n =
       emit (Call_wait_for 1)
         (logger LogError ''Receive failed''
            (emit (Call_recvfrom (m_socket s) n) (logger LogInfo ''Receiving up to {} bytes'' w)))"
  by (simp add: server_task_function_def receive_fail)

lemma server_task_function_recvfrom:
  assumes "is_valid (m_socket s)"
  shows "filter is_recvfrom (calls (server_task_function os s w n)) =
           filter is_recvfrom (calls w) @ [Call_recvfrom (m_socket s) n]"
proof (cases "recvfrom_ans os")
  case RecvFail
  with assms show ?thesis
    by (simp add: server_task_function_fail world_simps)
next
  case (Datagram payload sender)
  with assms show ?thesis
    by (simp add: server_task_function_def receive_datagram Let_def os_sendto_def world_simps
          split: option.splits prod.splits)
qed

lemma worker_iterations_recvfrom:
  "is_valid (m_socket s) \<Longrightarrow>
     length (filter is_recvfrom (calls (worker_iterations (Server_task_function n) oss s w))) =
       length (filter is_recvfrom (calls w)) + length oss"
  by (induction oss arbitrary: w) (simp_all add: server_task_function_recvfrom)

lemma server_task_function_wait:
  assumes "recvfrom_ans os = RecvFail"
  shows "filter is_wait_for (calls (server_task_function os s w n)) =
           filter is_wait_for (calls w) @ [Call_wait_for 1]"
proof (cases "is_valid (m_socket s)")
  case True
  with assms show ?thesis
    by (simp add: server_task_function_fail world_simps)
next
  case False
  then show ?thesis
    by (simp add: server_task_function_invalid world_simps)
qed

lemma worker_iterations_wait:
  "\<forall>os \<in> set oss. recvfrom_ans os = RecvFail \<Longrightarrow>
     filter is_wait_for (calls (worker_iterations (Server_task_function n) oss s w)) =
       filter is_wait_for (calls w) @ replicate (length oss) (Call_wait_for 1)"
proof (induction oss arbitrary: w)
  case Nil
  then show ?case by simp
next
  case (Cons os oss)
  then show ?case
    by (simp add: server_task_function_wait replicate_app_Cons_same)
qed

text \<open>
  C6. One iteration of the server loop. A receive that fails (the socket is invalid, or
  the OS primitive fails) is followed by one wait of 1 ms on the worker's condition
  variable and the iteration returns. When the registered callback returns bytes, they
  go back to the sender in one \<open>sendto\<close>; a negative result of it is logged as an error
  and the iteration returns as it does otherwise. Over a run of the worker every
  iteration makes its receive whatever the earlier ones met, and a run of failed
  receives makes one wait per iteration.
\<close>

theorem server_loop_iteration:
  "(\<not> is_valid (m_socket s) \<longrightarrow>
      calls (server_task_function os s w n) = calls w @ [Call_wait_for 1]
    \<and> user (server_task_function os s w n) = user w)
 \<and> (is_valid (m_socket s) \<and> recvfrom_ans os = RecvFail \<longrightarrow>
      calls (server_task_function os s w n) =
        calls w @ [Call_recvfrom (m_socket s) n, Call_wait_for 1]
    \<and> user (server_task_function os s w n) = user w)
 \<and> (is_valid (m_socket s) \<and> recvfrom_ans os = Datagram payload sender
      \<and> m_server_receive_callback s = Some on_receive
      \<and> on_receive (take n payload) \<lparr>address = fst sender, port = snd sender, raw = sender\<rparr>
           (user w) = (Some response, u) \<longrightarrow>
      calls (server_task_function os s w n) =
        calls w @ [Call_recvfrom (m_socket s) n,
                   Call_on_receive (take n payload)
                     \<lparr>address = fst sender, port = snd sender, raw = sender\<rparr>,
                   Call_sendto (m_socket s) response sender]
    \<and> user (server_task_function os s w n) = u
    \<and> logged LogError (server_task_function os s w n) =
        logged LogError w @
          (if sendto_ret os < 0 then [''Error occurred responding''] else []))
 \<and> (is_valid (m_socket s) \<longrightarrow>
      length (filter is_recvfrom (calls (worker_iterations (Server_task_function n) oss s w))) =
        length (filter is_recvfrom (calls w)) + length oss)
 \<and> ((\<forall>os \<in> set oss. recvfrom_ans os = RecvFail) \<longrightarrow>
      filter is_wait_for (calls (worker_iterations (Server_task_function n) oss s w)) =
        filter is_wait_for (calls w) @ replicate (length oss) (Call_wait_for 1))"
proof -
  have invalid: "\<not> is_valid (m_socket s) \<longrightarrow>
      calls (server_task_function os s w n) = calls w @ [Call_wait_for 1]
    \<and> user (server_task_function os s w n) = user w"
    by (simp add: server_task_function_invalid world_simps)
  have fail: "is_valid (m_socket s) \<and> recvfrom_ans os = RecvFail \<longrightarrow>
      calls (server_task_function os s w n) =
        calls w @ [Call_recvfrom (m_socket s) n, Call_wait_for 1]
    \<and> user (server_task_function os s w n) = user w"
    by (simp add: server_task_function_fail world_simps)
  have reply: "is_valid (m_socket s) \<and> recvfrom_ans os = Datagram payload sender
      \<and> m_server_receive_callback s = Some on_receive
      \<and> on_receive (take n payload) \<lparr>address = fst sender, port = snd sender, raw = sender\<rparr>
           (user w) = (Some response, u) \<longrightarrow>
      calls (server_task_function os s w n) =
        calls w @ [Call_recvfrom (m_socket s) n,
                   Call_on_receive (take n payload)
                     \<lparr>address = fst sender, port = snd sender, raw = sender\<rparr>,
                   Call_sendto (m_socket s) response sender]
    \<and> user (server_task_function os s w n) = u
    \<and> logged LogError (server_task_function os s w n) =
        logged LogError w @
          (if sendto_ret os < 0 then [''Error occurred responding''] else [])"
    by (simp add: server_task_function_def receive_datagram Let_def os_sendto_def ipv4_ptr_def
          world_simps logged_emit logged_logger logged_user_update)
  from invalid fail reply show ?thesis
    by (simp add: worker_iterations_recvfrom worker_iterations_wait)
qed

theorem server_loop_iteration_witness:
  "calls (server_task_function os_fine (a_server\<lparr>m_socket := - 1\<rparr>) a_world 64) =
     [Call_wait_for 1]
   \<and> calls (server_task_function os_silent a_server a_world 64) =
     [Call_recvfrom 3 64, Call_wait_for 1]
   \<and> calls (server_task_function (os_fine\<lparr>sendto_ret := - 1\<rparr>) a_server a_world 64) =
     [Call_recvfrom 3 64,
      Call_on_receive pong \<lparr>address = ''127.0.0.1'', port = 5000, raw = (''127.0.0.1'', 5000)\<rparr>,
      Call_sendto 3 pong (''127.0.0.1'', 5000)]
   \<and> logged LogError (server_task_function (os_fine\<lparr>sendto_ret := - 1\<rparr>) a_server a_world 64) =
     [''Error occurred responding'']
   \<and> length (filter is_recvfrom (calls (worker_iterations (Server_task_function 64)
        [os_silent, os_fine\<lparr>sendto_ret := - 1\<rparr>, os_silent] a_server a_world))) = 3
   \<and> filter is_wait_for (calls (worker_iterations (Server_task_function 64)
        [os_silent, os_silent] a_server a_world)) = [Call_wait_for 1, Call_wait_for 1]"
proof -
  have valid: "is_valid (m_socket a_server)" "\<not> is_valid (m_socket (a_server\<lparr>m_socket := - 1\<rparr>))"
    by (simp_all add: a_server_def is_valid_def)
  have vals: "m_socket a_server = 3" "calls a_world = []" "user a_world = []"
    "logged LogError a_world = []" "m_server_receive_callback a_server = Some echo"
    by (simp_all add: a_server_def a_world_def calls_def logged_def)
  have silent: "recvfrom_ans os_silent = RecvFail"
    by (simp add: os_silent_def)
  have fine: "recvfrom_ans (os_fine\<lparr>sendto_ret := - 1\<rparr>) = Datagram pong (''127.0.0.1'', 5000)"
    "sendto_ret (os_fine\<lparr>sendto_ret := - 1\<rparr>) < 0"
    by (simp_all add: os_fine_def)
  have cb: "echo (take 64 pong)
              \<lparr>address = fst (''127.0.0.1'', 5000 :: nat), port = snd (''127.0.0.1'', 5000 :: nat),
                raw = (''127.0.0.1'', 5000)\<rparr> (user a_world) = (Some pong, pong)"
    by (simp add: echo_def pong_def)
  from server_loop_iteration [where s = "a_server\<lparr>m_socket := - 1\<rparr>" and os = os_fine
         and w = a_world and n = 64 and oss = "[]"] valid
  have one: "calls (server_task_function os_fine (a_server\<lparr>m_socket := - 1\<rparr>) a_world 64) =
     [Call_wait_for 1]"
    by (simp add: vals)
  from server_loop_iteration [where s = a_server and os = os_silent and w = a_world and n = 64
         and oss = "[os_silent, os_silent]"] valid silent
  have two: "calls (server_task_function os_silent a_server a_world 64) =
     [Call_recvfrom 3 64, Call_wait_for 1]
   \<and> filter is_wait_for (calls (worker_iterations (Server_task_function 64)
        [os_silent, os_silent] a_server a_world)) = [Call_wait_for 1, Call_wait_for 1]"
    by (simp add: vals)
  from server_loop_iteration [where s = a_server and os = "os_fine\<lparr>sendto_ret := - 1\<rparr>"
         and w = a_world and n = 64 and payload = pong and sender = "(''127.0.0.1'', 5000)"
         and on_receive = echo and response = pong and u = pong
         and oss = "[os_silent, os_fine\<lparr>sendto_ret := - 1\<rparr>, os_silent]"] valid fine cb
  have three: "calls (server_task_function (os_fine\<lparr>sendto_ret := - 1\<rparr>) a_server a_world 64) =
     [Call_recvfrom 3 64,
      Call_on_receive pong \<lparr>address = ''127.0.0.1'', port = 5000, raw = (''127.0.0.1'', 5000)\<rparr>,
      Call_sendto 3 pong (''127.0.0.1'', 5000)]
   \<and> logged LogError (server_task_function (os_fine\<lparr>sendto_ret := - 1\<rparr>) a_server a_world 64) =
     [''Error occurred responding'']
   \<and> length (filter is_recvfrom (calls (worker_iterations (Server_task_function 64)
        [os_silent, os_fine\<lparr>sendto_ret := - 1\<rparr>, os_silent] a_server a_world))) = 3"
    by (simp add: vals pong_def)
  from one two three show ?thesis by simp
qed

subsection \<open>Construction and teardown\<close>

lemma cleanup_valid:
  "is_valid (m_socket s) \<Longrightarrow>
     cleanup s w =
       (s\<lparr>m_socket := - 1\<rparr>,
        logger LogInfo ''Closed socket''
          (emit (Call_close (m_socket s)) (emit (Call_shutdown (m_socket s) 0) w)))"
  by (simp add: cleanup_def os_shutdown_def os_close_def)

lemma cleanup_invalid: "\<not> is_valid (m_socket s) \<Longrightarrow> cleanup s w = (s, w)"
  by (simp add: cleanup_def)

lemma construct_socket: "m_socket (fst (construct fd0 os w)) = socket_ret os"
  by (simp add: construct_def init_def os_socket_def enable_reuse_def Let_def)

text \<open>
  C8, as stated, fails: the one \<open>shutdown\<close> of the teardown is called with 0, which is
  \<open>SHUT_RD\<close>; neither \<open>SHUT_RDWR\<close> nor \<open>SHUT_WR\<close> is ever passed, so the sending
  direction is ended by the \<open>close\<close> only.
\<close>

theorem cleanup_both_directions_counterexample:
  "is_valid (m_socket a_socket)
   \<and> calls (snd (cleanup a_socket a_world)) = [Call_shutdown 3 SHUT_RD, Call_close 3]
   \<and> Call_shutdown 3 SHUT_RDWR \<notin> set (calls (snd (cleanup a_socket a_world)))
   \<and> Call_shutdown 3 SHUT_WR \<notin> set (calls (snd (cleanup a_socket a_world)))"
proof -
  have valid: "is_valid (m_socket a_socket)"
    by (simp add: a_socket_def is_valid_def)
  have vals: "m_socket a_socket = 3" "calls a_world = []"
    by (simp_all add: a_socket_def a_world_def calls_def)
  from valid show ?thesis
    by (simp add: cleanup_valid world_simps vals SHUT_RD_def SHUT_RDWR_def SHUT_WR_def)
qed

text \<open>
  C8, amended. On a valid descriptor the teardown shuts down the receiving direction
  (\<open>shutdown\<close> with 0, that is \<open>SHUT_RD\<close>), closes the descriptor and marks it invalid;
  on an invalid descriptor it does nothing; a second teardown after a first changes
  nothing; and the destructor runs it without any condition.
\<close>

theorem cleanup_teardown:
  "(is_valid (m_socket s) \<longrightarrow>
      fst (cleanup s w) = s\<lparr>m_socket := - 1\<rparr>
    \<and> calls (snd (cleanup s w)) =
        calls w @ [Call_shutdown (m_socket s) SHUT_RD, Call_close (m_socket s)])
 \<and> (\<not> is_valid (m_socket s) \<longrightarrow> cleanup s w = (s, w))
 \<and> \<not> is_valid (m_socket (fst (cleanup s w)))
 \<and> cleanup (fst (cleanup s w)) (snd (cleanup s w)) = cleanup s w
 \<and> destruct s w = cleanup s w"
  by (cases "is_valid (m_socket s)")
     (simp_all add: cleanup_valid cleanup_invalid destruct_def world_simps SHUT_RD_def
        is_valid_def)

theorem cleanup_teardown_witness:
  "fst (cleanup a_socket a_world) = a_socket\<lparr>m_socket := - 1\<rparr>
   \<and> calls (snd (cleanup a_socket a_world)) = [Call_shutdown 3 0, Call_close 3]
   \<and> cleanup (a_socket\<lparr>m_socket := - 1\<rparr>) a_world = (a_socket\<lparr>m_socket := - 1\<rparr>, a_world)"
proof -
  have valid: "is_valid (m_socket a_socket)" "\<not> is_valid (m_socket (a_socket\<lparr>m_socket := - 1\<rparr>))"
    by (simp_all add: a_socket_def is_valid_def)
  have vals: "m_socket a_socket = 3" "calls a_world = []"
    by (simp_all add: a_socket_def a_world_def calls_def)
  from cleanup_teardown [where s = a_socket and w = a_world] valid(1)
  have one: "fst (cleanup a_socket a_world) = a_socket\<lparr>m_socket := - 1\<rparr>
     \<and> calls (snd (cleanup a_socket a_world)) = [Call_shutdown 3 0, Call_close 3]"
    by (simp add: vals SHUT_RD_def)
  from cleanup_teardown [where s = "a_socket\<lparr>m_socket := - 1\<rparr>" and w = a_world] valid(2)
  have two: "cleanup (a_socket\<lparr>m_socket := - 1\<rparr>) a_world = (a_socket\<lparr>m_socket := - 1\<rparr>, a_world)"
    by blast
  from one two show ?thesis by simp
qed

text \<open>
  C9, as stated, fails: when the descriptor is allocated and only enabling address reuse
  fails, \<open>init\<close> reports failure, but the constructor drops that result and the object
  keeps its valid descriptor; the next \<open>send\<close>, \<open>receive\<close> and \<open>start_receiving\<close>
  succeed.
\<close>

theorem construct_reuse_failure_counterexample:
  "fst (init (os_fine\<lparr>enable_reuse_ok := False\<rparr>)
         \<lparr>m_socket = 0, m_task = None, m_server_receive_callback = None\<rparr> a_world) = False
   \<and> fst (send os_fine (fst (construct 0 (os_fine\<lparr>enable_reuse_ok := False\<rparr>) a_world))
            (snd (construct 0 (os_fine\<lparr>enable_reuse_ok := False\<rparr>) a_world))
            ping ping_config) = True
   \<and> fst (receive os_fine (fst (construct 0 (os_fine\<lparr>enable_reuse_ok := False\<rparr>) a_world))
            (snd (construct 0 (os_fine\<lparr>enable_reuse_ok := False\<rparr>) a_world))
            4 [] default_Info) = True
   \<and> fst (start_receiving os_fine (fst (construct 0 (os_fine\<lparr>enable_reuse_ok := False\<rparr>) a_world))
            (snd (construct 0 (os_fine\<lparr>enable_reuse_ok := False\<rparr>) a_world))
            a_task_config a_receive_config) = True"
  by (simp add: init_def construct_def os_socket_def enable_reuse_def Let_def os_fine_def
        is_valid_def send_def receive_def start_receiving_def os_recvfrom_def os_sendto_def
        os_bind_def set_receive_timeout_def start_def make_unique_def ping_config_def
        a_receive_config_def)

text \<open>
  C9, amended. When the allocation of the descriptor fails, \<open>init\<close> reports failure and
  the constructed object is unusable: \<open>send\<close>, \<open>receive\<close> and \<open>start_receiving\<close> return
  failure whatever the OS would answer, and \<open>start_receiving\<close> leaves the object as it
  is, so this holds for every later call as well. When the descriptor is allocated and
  only enabling address reuse fails, \<open>init\<close> reports failure and the object keeps the
  descriptor, valid and open. In every case the object can be destructed: the teardown
  shuts down and closes a valid descriptor once, does nothing on an invalid one, and
  leaves the descriptor invalid.
\<close>

theorem construct_failure:
  "(\<not> is_valid (socket_ret os) \<longrightarrow>
      fst (init os \<lparr>m_socket = fd0, m_task = None, m_server_receive_callback = None\<rparr> w) = False
    \<and> fst (send os1 (fst (construct fd0 os w)) w1 data cfg) = False
    \<and> fst (receive os2 (fst (construct fd0 os w)) w2 n d r) = False
    \<and> fst (start_receiving os3 (fst (construct fd0 os w)) w3 tc rc) = False
    \<and> fst (snd (snd (start_receiving os3 (fst (construct fd0 os w)) w3 tc rc))) =
        fst (construct fd0 os w))
 \<and> (is_valid (socket_ret os) \<and> \<not> enable_reuse_ok os \<longrightarrow>
      fst (init os \<lparr>m_socket = fd0, m_task = None, m_server_receive_callback = None\<rparr> w) = False
    \<and> m_socket (fst (construct fd0 os w)) = socket_ret os
    \<and> calls (snd (construct fd0 os w)) =
        calls w @ [Call_socket AF_INET SOCK_DGRAM IPPROTO_IP, Call_enable_reuse (socket_ret os)])
 \<and> \<not> is_valid (m_socket (fst (destruct (fst (construct fd0 os w)) w4)))
 \<and> calls (snd (destruct (fst (construct fd0 os w)) w4)) =
      calls w4 @ (if is_valid (socket_ret os)
                  then [Call_shutdown (socket_ret os) SHUT_RD, Call_close (socket_ret os)]
                  else [])"
proof -
  have sock: "m_socket (fst (construct fd0 os w)) = socket_ret os"
    by (rule construct_socket)
  have task: "m_task (fst (construct fd0 os w)) = None"
    by (simp add: construct_def init_def os_socket_def enable_reuse_def Let_def)
  have unusable: "\<not> is_valid (socket_ret os) \<longrightarrow>
      fst (init os \<lparr>m_socket = fd0, m_task = None, m_server_receive_callback = None\<rparr> w) = False
    \<and> fst (send os1 (fst (construct fd0 os w)) w1 data cfg) = False
    \<and> fst (receive os2 (fst (construct fd0 os w)) w2 n d r) = False
    \<and> fst (start_receiving os3 (fst (construct fd0 os w)) w3 tc rc) = False
    \<and> fst (snd (snd (start_receiving os3 (fst (construct fd0 os w)) w3 tc rc))) =
        fst (construct fd0 os w)"
    by (simp add: send_def receive_def start_receiving_def sock task)
       (simp add: init_def os_socket_def Let_def)
  have reuse: "is_valid (socket_ret os) \<and> \<not> enable_reuse_ok os \<longrightarrow>
      fst (init os \<lparr>m_socket = fd0, m_task = None, m_server_receive_callback = None\<rparr> w) = False
    \<and> m_socket (fst (construct fd0 os w)) = socket_ret os
    \<and> calls (snd (construct fd0 os w)) =
        calls w @ [Call_socket AF_INET SOCK_DGRAM IPPROTO_IP, Call_enable_reuse (socket_ret os)]"
    by (simp add: construct_def init_def os_socket_def enable_reuse_def Let_def world_simps
          m_address_family_def m_ip_protocol_def)
  have teardown: "\<not> is_valid (m_socket (fst (destruct (fst (construct fd0 os w)) w4)))
    \<and> calls (snd (destruct (fst (construct fd0 os w)) w4)) =
      calls w4 @ (if is_valid (socket_ret os)
                  then [Call_shutdown (socket_ret os) SHUT_RD, Call_close (socket_ret os)]
                  else [])"
    by (cases "is_valid (socket_ret os)")
       (simp_all add: destruct_def cleanup_valid cleanup_invalid sock world_simps SHUT_RD_def
          is_valid_def)
  from unusable reuse teardown show ?thesis by simp
qed

theorem construct_failure_witness:
  "fst (send os_fine (fst (construct 0 (os_fine\<lparr>socket_ret := - 1\<rparr>) a_world)) a_world
          ping ping_config) = False
   \<and> fst (receive os_fine (fst (construct 0 (os_fine\<lparr>socket_ret := - 1\<rparr>) a_world)) a_world
          4 [] default_Info) = False
   \<and> fst (start_receiving os_fine (fst (construct 0 (os_fine\<lparr>socket_ret := - 1\<rparr>) a_world))
          a_world a_task_config a_receive_config) = False
   \<and> calls (snd (destruct (fst (construct 0 (os_fine\<lparr>socket_ret := - 1\<rparr>) a_world)) a_world)) = []
   \<and> m_socket (fst (construct 0 (os_fine\<lparr>enable_reuse_ok := False\<rparr>) a_world)) = 3
   \<and> calls (snd (destruct (fst (construct 0 (os_fine\<lparr>enable_reuse_ok := False\<rparr>) a_world))
          a_world)) = [Call_shutdown 3 0, Call_close 3]"
proof -
  have no_socket: "\<not> is_valid (socket_ret (os_fine\<lparr>socket_ret := - 1\<rparr>))"
    by (simp add: is_valid_def)
  have no_reuse: "is_valid (socket_ret (os_fine\<lparr>enable_reuse_ok := False\<rparr>))
                  \<and> \<not> enable_reuse_ok (os_fine\<lparr>enable_reuse_ok := False\<rparr>)"
    by (simp add: is_valid_def os_fine_def)
  have vals: "calls a_world = []" "socket_ret os_fine = 3"
    by (simp_all add: a_world_def calls_def os_fine_def)
  from construct_failure [where os = "os_fine\<lparr>socket_ret := - 1\<rparr>" and ?fd0.0 = 0
         and w = a_world and ?os1.0 = os_fine and ?w1.0 = a_world and data = ping
         and cfg = ping_config and ?os2.0 = os_fine and ?w2.0 = a_world and n = 4 and d = "[]"
         and r = default_Info and ?os3.0 = os_fine and ?w3.0 = a_world and tc = a_task_config
         and rc = a_receive_config and ?w4.0 = a_world] no_socket
  have one: "fst (send os_fine (fst (construct 0 (os_fine\<lparr>socket_ret := - 1\<rparr>) a_world)) a_world
          ping ping_config) = False
   \<and> fst (receive os_fine (fst (construct 0 (os_fine\<lparr>socket_ret := - 1\<rparr>) a_world)) a_world
          4 [] default_Info) = False
   \<and> fst (start_receiving os_fine (fst (construct 0 (os_fine\<lparr>socket_ret := - 1\<rparr>) a_world))
          a_world a_task_config a_receive_config) = False
   \<and> calls (snd (destruct (fst (construct 0 (os_fine\<lparr>socket_ret := - 1\<rparr>) a_world)) a_world)) = []"
    by (simp add: vals)
  from construct_failure [where os = "os_fine\<lparr>enable_reuse_ok := False\<rparr>" and ?fd0.0 = 0
         and w = a_world and ?w4.0 = a_world] no_reuse
  have two: "m_socket (fst (construct 0 (os_fine\<lparr>enable_reuse_ok := False\<rparr>) a_world)) = 3
   \<and> calls (snd (destruct (fst (construct 0 (os_fine\<lparr>enable_reuse_ok := False\<rparr>) a_world))
          a_world)) = [Call_shutdown 3 0, Call_close 3]"
    by (simp add: vals SHUT_RD_def)
  from one two show ?thesis by simp
qed

end
